theory Spec2Isabelle
  imports Complex_Main
begin

section \<open>The rubric evaluator of \<^verbatim>\<open>evaluate_agent.py\<close>\<close>

text \<open>
  The evaluator posts a question to an analysis endpoint, decodes the JSON answer and
  scores it against a 20-point rubric. The network fetch is the environment of the
  development: \<^verbatim>\<open>run_evaluation\<close> is modelled from the point where
  \<^verbatim>\<open>test_api_response\<close> has returned, with the returned value as an argument.
  Everything after that point is a function of the evaluator object and of that value.
\<close>

subsection \<open>Python values\<close>

text \<open>
  A Python \<^verbatim>\<open>str\<close> is a sequence of Unicode code points; lone surrogates
  (U+D800 to U+DFFF) are legal in a \<^verbatim>\<open>str\<close> and are produced by the JSON decoder
  for an escape such as \<^verbatim>\<open>"\ud800"\<close>. The helper \<open>py\<close> writes an ASCII literal.
\<close>

type_synonym pystr = "nat list"

definition py :: "string \<Rightarrow> pystr" where
  "py s = map of_char s"

text \<open>The exceptions the evaluator can meet; each \<^verbatim>\<open>raise\<close> is an \<open>Inl\<close>.\<close>

datatype exn =
    TypeError | ValueError | IndexError | KeyError | AttributeError
  | OverflowError | ZeroDivisionError | UnicodeEncodeError | BinasciiError

text \<open>
  A Python \<^verbatim>\<open>float\<close> is an IEEE 754 binary64 value. A finite value is kept as the
  rational number it denotes (\<open>Finite 0\<close> is \<^verbatim>\<open>+0.0\<close>); the result of every arithmetic
  operation is rounded to the nearest representable value, ties to even.
\<close>

datatype pyfloat = Finite rat | NegZero | PosInf | NegInf | NaN

text \<open>
  The value \<^verbatim>\<open>response.json()\<close> returns: \<^verbatim>\<open>None\<close>, \<^verbatim>\<open>bool\<close>, \<^verbatim>\<open>int\<close>,
  \<^verbatim>\<open>float\<close>, \<^verbatim>\<open>str\<close>, \<^verbatim>\<open>list\<close> or \<^verbatim>\<open>dict\<close> (keys are strings, in
  document order).
\<close>

datatype json =
    JNull
  | JBool bool
  | JInt int
  | JFloat pyfloat
  | JString pystr
  | JArray "json list"
  | JObject "(pystr \<times> json) list"

subsection \<open>Binary64 arithmetic\<close>

fun bit_length :: "nat \<Rightarrow> nat" where
  "bit_length n = (if n = 0 then 0 else Suc (bit_length (n div 2)))"

declare bit_length.simps [simp del]

definition floor_log2 :: "rat \<Rightarrow> int" where
  \<comment> \<open>for \<open>0 < q\<close>: the \<open>e\<close> with \<open>2 ^ e \<le> q < 2 ^ (e + 1)\<close>\<close>
  "floor_log2 q =
     (if 1 \<le> q then int (bit_length (nat \<lfloor>q\<rfloor>)) - 1
      else - int (bit_length (nat (\<lceil>1 / q\<rceil> - 1))))"

definition pow2 :: "int \<Rightarrow> rat" where
  "pow2 e = (if 0 \<le> e then 2 ^ nat e else 1 / 2 ^ nat (- e))"

definition round_half_even :: "rat \<Rightarrow> int" where
  "round_half_even x =
     (let n = \<lfloor>x\<rfloor>; r = x - of_int n
      in if r < 1 / 2 then n
         else if 1 / 2 < r then n + 1
         else if even n then n else n + 1)"

definition round_double :: "rat \<Rightarrow> pyfloat" where
  \<comment> \<open>53 significant bits, exponents from -1022 (subnormals share the lowest
      exponent), overflow to infinity when the rounded magnitude reaches \<open>2 ^ 1024\<close>\<close>
  "round_double q =
     (if q = 0 then Finite 0
      else
        let e = max (floor_log2 \<bar>q\<bar>) (- 1022);
            ulp = pow2 (e - 52);
            r = of_int (round_half_even (q / ulp)) * ulp
        in if r = 0 then (if 0 < q then Finite 0 else NegZero)
           else if 1024 \<le> floor_log2 \<bar>r\<bar> then (if 0 < q then PosInf else NegInf)
           else Finite r)"

fun is_nan :: "pyfloat \<Rightarrow> bool" where
  "is_nan NaN = True"
| "is_nan _ = False"

fun is_inf :: "pyfloat \<Rightarrow> bool" where
  "is_inf PosInf = True"
| "is_inf NegInf = True"
| "is_inf _ = False"

fun is_zero :: "pyfloat \<Rightarrow> bool" where
  "is_zero (Finite q) = (q = 0)"
| "is_zero NegZero = True"
| "is_zero _ = False"

fun sign_bit :: "pyfloat \<Rightarrow> bool" where
  "sign_bit (Finite q) = (q < 0)"
| "sign_bit NegZero = True"
| "sign_bit NegInf = True"
| "sign_bit _ = False"

fun finite_value :: "pyfloat \<Rightarrow> rat" where
  "finite_value (Finite q) = q"
| "finite_value _ = 0"

definition float_sub :: "pyfloat \<Rightarrow> pyfloat \<Rightarrow> pyfloat" where
  "float_sub x y =
     (if is_nan x then NaN else if is_nan y then NaN
      else if is_inf x then (if is_inf y then (if x = y then NaN else x) else x)
      else if is_inf y then (if y = PosInf then NegInf else PosInf)
      else if finite_value x - finite_value y = 0
           then (if x = NegZero then (if y = Finite 0 then NegZero else Finite 0) else Finite 0)
      else round_double (finite_value x - finite_value y))"

definition float_mul :: "pyfloat \<Rightarrow> pyfloat \<Rightarrow> pyfloat" where
  "float_mul x y =
     (if is_nan x then NaN else if is_nan y then NaN
      else if is_inf x then
        (if is_zero y then NaN else if sign_bit x = sign_bit y then PosInf else NegInf)
      else if is_inf y then
        (if is_zero x then NaN else if sign_bit x = sign_bit y then PosInf else NegInf)
      else if is_zero x then (if sign_bit x = sign_bit y then Finite 0 else NegZero)
      else if is_zero y then (if sign_bit x = sign_bit y then Finite 0 else NegZero)
      else round_double (finite_value x * finite_value y))"

fun float_abs :: "pyfloat \<Rightarrow> pyfloat" where
  "float_abs (Finite q) = Finite \<bar>q\<bar>"
| "float_abs NegZero = Finite 0"
| "float_abs PosInf = PosInf"
| "float_abs NegInf = PosInf"
| "float_abs NaN = NaN"

definition float_le :: "pyfloat \<Rightarrow> pyfloat \<Rightarrow> bool" where
  "float_le x y =
     (if is_nan x then False else if is_nan y then False
      else if x = NegInf then True
      else if y = PosInf then True
      else if x = PosInf then False
      else if y = NegInf then False
      else finite_value x \<le> finite_value y)"

definition float_of_int :: "int \<Rightarrow> exn + pyfloat" where
  \<comment> \<open>\<^verbatim>\<open>float(n)\<close> for an \<^verbatim>\<open>int\<close>: correctly rounded, or \<^verbatim>\<open>OverflowError\<close>\<close>
  "float_of_int n =
     (let f = round_double (of_int n)
      in if is_inf f then Inl OverflowError else Inr f)"

definition int_truediv :: "int \<Rightarrow> int \<Rightarrow> exn + pyfloat" where
  \<comment> \<open>\<^verbatim>\<open>a / b\<close> on two \<^verbatim>\<open>int\<close>s: the correctly rounded quotient\<close>
  "int_truediv a b =
     (if b = 0 then Inl ZeroDivisionError
      else if a = 0 then Inr (if b < 0 then NegZero else Finite 0)
      else
        let f = round_double (of_int a / of_int b)
        in if is_inf f then Inl OverflowError else Inr f)"

subsection \<open>Strings\<close>

definition is_surrogate :: "nat \<Rightarrow> bool" where
  "is_surrogate c = (55296 \<le> c \<and> c \<le> 57343)"

fun utf8_len :: "pystr \<Rightarrow> nat option" where
  \<comment> \<open>\<^verbatim>\<open>len(s.encode('utf-8'))\<close>; \<open>None\<close> is the \<^verbatim>\<open>UnicodeEncodeError\<close> a lone
      surrogate raises\<close>
  "utf8_len [] = Some 0"
| "utf8_len (c # cs) =
     (if is_surrogate c then None
      else case utf8_len cs of
             None \<Rightarrow> None
           | Some n \<Rightarrow>
               Some (n + (if c < 128 then 1 else if c < 2048 then 2
                          else if c < 65536 then 3 else 4)))"

definition printable :: "pystr \<Rightarrow> bool" where
  \<comment> \<open>\<^verbatim>\<open>print\<close> writes UTF-8 to standard output and raises \<^verbatim>\<open>UnicodeEncodeError\<close> on
      a lone surrogate\<close>
  "printable s = list_all (\<lambda>c. \<not> is_surrogate c) s"

fun startswith :: "pystr \<Rightarrow> pystr \<Rightarrow> bool" where
  \<comment> \<open>\<^verbatim>\<open>s.startswith(p)\<close>\<close>
  "startswith s [] = True"
| "startswith [] (p # ps) = False"
| "startswith (c # cs) (p # ps) = (c = p \<and> startswith cs ps)"

fun find_sep :: "pystr \<Rightarrow> pystr \<Rightarrow> (pystr \<times> pystr) option" where
  \<comment> \<open>the text before and the text after the first occurrence of \<open>sep\<close> in \<open>s\<close>\<close>
  "find_sep sep [] = (if sep = [] then Some ([], []) else None)"
| "find_sep sep (c # cs) =
     (if startswith (c # cs) sep then Some ([], drop (length sep) (c # cs))
      else case find_sep sep cs of
             None \<Rightarrow> None
           | Some (before, after) \<Rightarrow> Some (c # before, after))"

definition contains :: "pystr \<Rightarrow> pystr \<Rightarrow> bool" where
  \<comment> \<open>\<^verbatim>\<open>sub in s\<close>\<close>
  "contains sub s = (case find_sep sub s of None \<Rightarrow> False | Some _ \<Rightarrow> True)"

function py_split :: "pystr \<Rightarrow> pystr \<Rightarrow> pystr list" where
  \<comment> \<open>\<^verbatim>\<open>s.split(sep)\<close> for a non-empty separator: the pieces between successive
      occurrences, found left to right. (Python raises \<^verbatim>\<open>ValueError\<close> for an empty
      separator; the evaluator only splits at a literal.)\<close>
  "py_split sep s =
     (if sep = [] then [s]
      else case find_sep sep s of
             None \<Rightarrow> [s]
           | Some (before, after) \<Rightarrow> before # py_split sep after)"
  by pat_completeness auto
termination
proof (relation "measure (\<lambda>(sep, s). length s)")
  show "wf (measure (\<lambda>(sep, s). length s))" by simp
next
  fix sep s :: pystr and x2 before after
  assume sep: "sep \<noteq> []" and found: "find_sep sep s = Some x2" and x2: "(before, after) = x2"
  have shorter: "find_sep sep t = Some (b, a) \<Longrightarrow> length a < length t" for t b a
  proof (induction t arbitrary: b)
    case Nil
    with sep show ?case by simp
  next
    case (Cons c cs)
    show ?case
    proof (cases "startswith (c # cs) sep")
      case True
      with Cons.prems have "a = drop (length sep) (c # cs)" by simp
      with sep show ?thesis by (cases sep) simp_all
    next
      case False
      with Cons.prems obtain b' where "find_sep sep cs = Some (b', a)"
        by (auto split: option.splits)
      from Cons.IH [OF this] show ?thesis by simp
    qed
  qed
  from found x2 have "find_sep sep s = Some (before, after)" by simp
  from shorter [OF this] show "((sep, after), (sep, s)) \<in> measure (\<lambda>(sep, s). length s)"
    by simp
qed

declare py_split.simps [simp del]

fun digits :: "nat \<Rightarrow> pystr" where
  "digits n = (if n < 10 then [48 + n] else digits (n div 10) @ [48 + n mod 10])"

declare digits.simps [simp del]

definition str_int :: "int \<Rightarrow> pystr" where
  \<comment> \<open>\<^verbatim>\<open>str(n)\<close> for an \<^verbatim>\<open>int\<close>\<close>
  "str_int n = (if n < 0 then 45 # digits (nat (- n)) else digits (nat n))"

subsection \<open>Case-insensitive search for the title\<close>

text \<open>
  \<^verbatim>\<open>re.search(r'titanic', s, re.I)\<close> on a \<^verbatim>\<open>str\<close>: a pattern letter matches itself
  and its upper-case form; under Unicode case folding \<^verbatim>\<open>i\<close> also matches U+0130 and
  U+0131. No other character folds to one of the letters t, i, a, n, c.
\<close>

definition ci_eq :: "nat \<Rightarrow> nat \<Rightarrow> bool" where
  "ci_eq p c = (c = p \<or> c + 32 = p \<or> (p = 105 \<and> (c = 304 \<or> c = 305)))"

fun ci_startswith :: "pystr \<Rightarrow> pystr \<Rightarrow> bool" where
  "ci_startswith s [] = True"
| "ci_startswith [] (p # ps) = False"
| "ci_startswith (c # cs) (p # ps) = (ci_eq p c \<and> ci_startswith cs ps)"

fun re_search_ci :: "pystr \<Rightarrow> pystr \<Rightarrow> bool" where
  "re_search_ci pat [] = ci_startswith [] pat"
| "re_search_ci pat (c # cs) = (ci_startswith (c # cs) pat \<or> re_search_ci pat cs)"

subsection \<open>Base64 decoding\<close>

text \<open>
  \<^verbatim>\<open>base64.b64decode(s)\<close> with its default \<^verbatim>\<open>validate=False\<close>: a \<^verbatim>\<open>str\<close> argument is
  first encoded as ASCII (\<^verbatim>\<open>ValueError\<close> otherwise), then \<^verbatim>\<open>binascii.a2b_base64\<close>
  runs in its lenient mode: characters outside the alphabet are skipped, a pad character
  ends the input once it completes a quad, and the data characters left over at the end
  must not form an incomplete quad.
\<close>

definition b64_value :: "nat \<Rightarrow> nat option" where
  "b64_value c =
     (if 65 \<le> c \<and> c \<le> 90 then Some (c - 65)
      else if 97 \<le> c \<and> c \<le> 122 then Some (c - 71)
      else if 48 \<le> c \<and> c \<le> 57 then Some (c + 4)
      else if c = 43 then Some 62
      else if c = 47 then Some 63
      else None)"

fun a2b_base64 :: "pystr \<Rightarrow> nat \<Rightarrow> nat \<Rightarrow> nat \<Rightarrow> nat list \<Rightarrow> exn + nat list" where
  \<comment> \<open>arguments: remaining input, \<open>quad_pos\<close>, \<open>leftchar\<close>, \<open>pads\<close>, bytes written\<close>
  "a2b_base64 [] quad_pos leftchar pads out =
     (if quad_pos = 0 then Inr out else Inl BinasciiError)"
| "a2b_base64 (c # cs) quad_pos leftchar pads out =
     (if c = 61 then
        (if 2 \<le> quad_pos then
           (if 4 \<le> quad_pos + (pads + 1) then Inr out
            else a2b_base64 cs quad_pos leftchar (pads + 1) out)
         else a2b_base64 cs quad_pos leftchar pads out)
      else case b64_value c of
             None \<Rightarrow> a2b_base64 cs quad_pos leftchar pads out
           | Some v \<Rightarrow>
               (if quad_pos = 0 then a2b_base64 cs 1 v 0 out
                else if quad_pos = 1 then
                  a2b_base64 cs 2 (v mod 16) 0 (out @ [(leftchar * 4 + v div 16) mod 256])
                else if quad_pos = 2 then
                  a2b_base64 cs 3 (v mod 4) 0 (out @ [(leftchar * 16 + v div 4) mod 256])
                else
                  a2b_base64 cs 0 0 0 (out @ [(leftchar * 64 + v) mod 256])))"

definition b64decode :: "pystr \<Rightarrow> exn + nat list" where
  "b64decode s =
     (if list_all (\<lambda>c. c < 128) s then a2b_base64 s 0 0 0 [] else Inl ValueError)"

subsection \<open>Builtins of the interpreter\<close>

text \<open>
  Two builtins are parameters of the development, since their definitions lie outside
  the repository: the grammar by which \<^verbatim>\<open>float\<close> reads a \<^verbatim>\<open>str\<close> (\<open>None\<close> is its
  \<^verbatim>\<open>ValueError\<close>), and the text \<^verbatim>\<open>str\<close> gives for a \<^verbatim>\<open>float\<close>, a \<^verbatim>\<open>list\<close> or a
  \<^verbatim>\<open>dict\<close>. Every theorem below holds for all values of them.
\<close>

record builtins =
  parse_float :: "pystr \<Rightarrow> pyfloat option"
  repr_of :: "json \<Rightarrow> pystr"

fun str_py :: "builtins \<Rightarrow> json \<Rightarrow> pystr" where
  \<comment> \<open>\<^verbatim>\<open>str(v)\<close>, also what an f-string puts for \<^verbatim>\<open>{v}\<close>\<close>
  "str_py B (JString s) = s"
| "str_py B JNull = py ''None''"
| "str_py B (JBool b) = (if b then py ''True'' else py ''False'')"
| "str_py B (JInt n) = str_int n"
| "str_py B v = repr_of B v"

fun float_py :: "builtins \<Rightarrow> json \<Rightarrow> exn + pyfloat" where
  \<comment> \<open>\<^verbatim>\<open>float(v)\<close>\<close>
  "float_py B (JFloat f) = Inr f"
| "float_py B (JInt n) = float_of_int n"
| "float_py B (JBool b) = Inr (Finite (if b then 1 else 0))"
| "float_py B (JString s) =
     (case parse_float B s of None \<Rightarrow> Inl ValueError | Some f \<Rightarrow> Inr f)"
| "float_py B _ = Inl TypeError"

fun eq_1 :: "json \<Rightarrow> bool" where
  \<comment> \<open>\<^verbatim>\<open>v == 1\<close>: numbers compare by value, and \<^verbatim>\<open>bool\<close> is a subclass of
      \<^verbatim>\<open>int\<close>\<close>
  "eq_1 (JInt n) = (n = 1)"
| "eq_1 (JBool b) = b"
| "eq_1 (JFloat f) = (f = Finite 1)"
| "eq_1 _ = False"

fun subscript :: "json \<Rightarrow> nat \<Rightarrow> exn + json" where
  \<comment> \<open>\<^verbatim>\<open>result[i]\<close> for a literal index \<open>i\<close>\<close>
  "subscript (JArray xs) i = (if i < length xs then Inr (xs ! i) else Inl IndexError)"
| "subscript (JString s) i = (if i < length s then Inr (JString [s ! i]) else Inl IndexError)"
| "subscript (JObject kvs) i = Inl KeyError"
| "subscript _ i = Inl TypeError"

fun print_ok :: "json \<Rightarrow> bool" where
  \<comment> \<open>whether \<^verbatim>\<open>print(f"...{v}")\<close> returns: only a \<^verbatim>\<open>str\<close> can carry a lone
      surrogate to the output, the text of every other value is escaped\<close>
  "print_ok (JString s) = printable s"
| "print_ok _ = True"

fun is_list :: "json \<Rightarrow> bool" where
  \<comment> \<open>\<^verbatim>\<open>isinstance(v, list)\<close>\<close>
  "is_list (JArray xs) = True"
| "is_list _ = False"

fun items :: "json \<Rightarrow> json list" where
  "items (JArray xs) = xs"
| "items _ = []"

subsection \<open>The evaluator\<close>

record evaluator =
  api_url :: pystr
  total_score :: int
  max_score :: int

definition DataAnalystEvaluator :: "pystr \<Rightarrow> evaluator" where
  \<comment> \<open>\<^verbatim>\<open>__init__\<close>\<close>
  "DataAnalystEvaluator url = \<lparr>api_url = url, total_score = 0, max_score = 20\<rparr>"

text \<open>
  The structural gate returns its verdict; the second component is what it prints
  (the argument of each \<^verbatim>\<open>print\<close> call, in order).
\<close>

definition evaluate_structure :: "json \<Rightarrow> bool \<times> pystr list" where
  "evaluate_structure result =
     (let header = 10 # 128269 # py '' Test 1: Structural Validation''
      in if \<not> is_list result then
           (False, [header, 10060 # py '' Response is not an array''])
         else if length (items result) \<noteq> 4 then
           (False, [header, 10060 # py '' Array has '' @ digits (length (items result))
                             @ py '' elements, expected 4''])
         else (True, [header, 9989 # py '' Response is a 4-element array'']))"

text \<open>
  Each content check is a \<^verbatim>\<open>try\<close> block followed by \<^verbatim>\<open>except Exception\<close>. The
  \<open>_try\<close> function is the block: \<open>Inl\<close> when it raises, otherwise the returned flag and
  the evaluator after the block. The diagnostic \<^verbatim>\<open>print\<close> calls are modelled where
  they can raise, that is where they print a value of the submission; a value that
  compares equal to 1 prints as \<^verbatim>\<open>1\<close>, \<^verbatim>\<open>True\<close> or \<^verbatim>\<open>1.0\<close>. Standard output is
  taken to be UTF-8, so the fixed texts print.
\<close>

definition first_answer_try :: "evaluator \<Rightarrow> json \<Rightarrow> exn + (bool \<times> evaluator)" where
  "first_answer_try self result =
     (case subscript result 0 of
        Inl e \<Rightarrow> Inl e
      | Inr first_answer \<Rightarrow>
          if eq_1 first_answer then
            Inr (True, self\<lparr>total_score := total_score self + 4\<rparr>)
          else
            (if print_ok first_answer then Inr (False, self)
             else Inl UnicodeEncodeError))"

definition evaluate_first_answer :: "evaluator \<Rightarrow> json \<Rightarrow> bool \<times> evaluator" where
  "evaluate_first_answer self result =
     (case first_answer_try self result of Inl e \<Rightarrow> (False, self) | Inr r \<Rightarrow> r)"

definition second_answer_try :: "builtins \<Rightarrow> evaluator \<Rightarrow> json \<Rightarrow> exn + (bool \<times> evaluator)" where
  "second_answer_try B self result =
     (case subscript result 1 of
        Inl e \<Rightarrow> Inl e
      | Inr v \<Rightarrow>
          let second_answer = str_py B v
          in if re_search_ci (py ''titanic'') second_answer then
               (if print_ok v
                then Inr (True, self\<lparr>total_score := total_score self + 4\<rparr>)
                else Inl UnicodeEncodeError)
             else
               (if print_ok v then Inr (False, self)
                else Inl UnicodeEncodeError))"

definition evaluate_second_answer :: "builtins \<Rightarrow> evaluator \<Rightarrow> json \<Rightarrow> bool \<times> evaluator" where
  "evaluate_second_answer B self result =
     (case second_answer_try B self result of Inl e \<Rightarrow> (False, self) | Inr r \<Rightarrow> r)"

definition expected :: pyfloat where
  "expected = round_double (485782 / 1000000)"

definition tolerance :: pyfloat where
  "tolerance = round_double (1 / 1000)"

definition third_answer_try :: "builtins \<Rightarrow> evaluator \<Rightarrow> json \<Rightarrow> exn + (bool \<times> evaluator)" where
  "third_answer_try B self result =
     (case subscript result 2 of
        Inl e \<Rightarrow> Inl e
      | Inr v \<Rightarrow>
          (case float_py B v of
             Inl e \<Rightarrow> Inl e
           | Inr third_answer \<Rightarrow>
               if float_le (float_abs (float_sub third_answer expected)) tolerance
               then Inr (True, self\<lparr>total_score := total_score self + 4\<rparr>)
               else Inr (False, self)))"

definition evaluate_third_answer :: "builtins \<Rightarrow> evaluator \<Rightarrow> json \<Rightarrow> bool \<times> evaluator" where
  "evaluate_third_answer B self result =
     (case third_answer_try B self result of Inl e \<Rightarrow> (False, self) | Inr r \<Rightarrow> r)"

definition marker :: pystr where
  "marker = py ''base64,''"

definition can_decode_try :: "pystr \<Rightarrow> exn + bool" where
  \<comment> \<open>the inner \<^verbatim>\<open>try\<close> block of the plot check\<close>
  "can_decode_try plot_data =
     (if contains marker plot_data then
        (case py_split marker plot_data of
           before # base64_part # rest \<Rightarrow>
             (case b64decode base64_part of Inl e \<Rightarrow> Inl e | Inr decoded \<Rightarrow> Inr True)
         | _ \<Rightarrow> Inl IndexError)
      else Inr False)"

definition criteria_met :: "json \<Rightarrow> exn + bool list" where
  \<comment> \<open>the plot check up to the list \<^verbatim>\<open>criteria_met\<close>\<close>
  "criteria_met result =
     (case subscript result 3 of
        Inl e \<Rightarrow> Inl e
      | Inr (JString plot_data) \<Rightarrow>
          let is_data_uri = startswith plot_data (py ''data:image/'');
              has_base64 = contains marker plot_data
          in (case utf8_len plot_data of
                None \<Rightarrow> Inl UnicodeEncodeError
              | Some size_bytes \<Rightarrow>
                  let size_ok = size_bytes < 100000;
                      can_decode = (case can_decode_try plot_data of
                                      Inl decode_error \<Rightarrow> False | Inr b \<Rightarrow> b)
                  in Inr [is_data_uri, has_base64, size_ok, can_decode])
      | Inr _ \<Rightarrow> Inl AttributeError)"

definition plot_try :: "evaluator \<Rightarrow> json \<Rightarrow> exn + (bool \<times> evaluator)" where
  "plot_try self result =
     (case criteria_met result of
        Inl e \<Rightarrow> Inl e
      | Inr cs \<Rightarrow>
          let points_per_criterion = 2;
              points_earned = int (length (filter id cs)) * points_per_criterion
          in Inr (list_all id cs, self\<lparr>total_score := total_score self + points_earned\<rparr>))"

definition evaluate_plot :: "evaluator \<Rightarrow> json \<Rightarrow> bool \<times> evaluator" where
  "evaluate_plot self result =
     (case plot_try self result of Inl e \<Rightarrow> (False, self) | Inr r \<Rightarrow> r)"

text \<open>
  The dictionary \<^verbatim>\<open>run_evaluation\<close> returns. The key \<^verbatim>\<open>percentage\<close> holds the
  \<^verbatim>\<open>int\<close> 0 on the early returns and a \<^verbatim>\<open>float\<close> otherwise; the key
  \<^verbatim>\<open>response\<close> is present only on the last return.
\<close>

record report =
  success :: bool
  score :: int
  report_max_score :: int
  percentage :: json
  details :: pystr
  response :: "json option"

definition run_evaluation :: "builtins \<Rightarrow> evaluator \<Rightarrow> json \<Rightarrow> exn + (report \<times> evaluator)" where
  \<comment> \<open>\<open>result\<close> is what \<^verbatim>\<open>self.test_api_response(question_file)\<close> returned:
      the decoded body, or \<^verbatim>\<open>None\<close> when the request failed. \<^verbatim>\<open>None\<close> is
      \<open>JNull\<close>, which is also what a body \<^verbatim>\<open>null\<close> decodes to.\<close>
  "run_evaluation B self result =
     (if result = JNull then
        Inr (\<lparr>success = False, score = 0, report_max_score = max_score self,
              percentage = JInt 0, details = py ''API request failed'',
              response = None\<rparr>, self)
      else
        let structure_passed = fst (evaluate_structure result)
        in if \<not> structure_passed then
             Inr (\<lparr>success = False, score = 0, report_max_score = max_score self,
                   percentage = JInt 0,
                   details = py ''Failed structural validation - not a 4-element array'',
                   response = None\<rparr>, self)
           else
             let self1 = snd (evaluate_first_answer self result);
                 self2 = snd (evaluate_second_answer B self1 result);
                 self3 = snd (evaluate_third_answer B self2 result);
                 self4 = snd (evaluate_plot self3 result)
             in (case int_truediv (total_score self4) (max_score self4) of
                   Inl e \<Rightarrow> Inl e
                 | Inr ratio \<Rightarrow>
                     Inr (\<lparr>success = True, score = total_score self4,
                           report_max_score = max_score self4,
                           percentage = JFloat (float_mul ratio (Finite 100)),
                           details = py ''Evaluation completed successfully'',
                           response = Some result\<rparr>, self4)))"

subsection \<open>Notions used to state the properties\<close>

definition awarded :: "(evaluator \<Rightarrow> json \<Rightarrow> bool \<times> evaluator) \<Rightarrow> evaluator \<Rightarrow> json \<Rightarrow> int" where
  \<comment> \<open>the points a check adds to the accumulator\<close>
  "awarded check self result = total_score (snd (check self result)) - total_score self"

definition criterion_points :: "nat \<Rightarrow> json \<Rightarrow> int" where
  \<comment> \<open>the share of sub-criterion \<open>k\<close> (counted from 0) in \<^verbatim>\<open>points_earned\<close>\<close>
  "criterion_points k result =
     (case criteria_met result of Inl e \<Rightarrow> 0 | Inr cs \<Rightarrow> if cs ! k then 2 else 0)"

definition remainder_after_marker :: "pystr \<Rightarrow> pystr option" where
  \<comment> \<open>everything after the first occurrence of the marker\<close>
  "remainder_after_marker s =
     (case find_sep marker s of None \<Rightarrow> None | Some (before, after) \<Rightarrow> Some after)"

definition segment_after_marker :: "pystr \<Rightarrow> pystr option" where
  \<comment> \<open>the text between the first occurrence of the marker and the next one, or the end
      of the string when there is no next one\<close>
  "segment_after_marker s =
     (case find_sep marker s of
        None \<Rightarrow> None
      | Some (before, after) \<Rightarrow>
          Some (case find_sep marker after of None \<Rightarrow> after | Some (seg, rest) \<Rightarrow> seg))"

definition marker_recurs :: "pystr \<Rightarrow> bool" where
  \<comment> \<open>the marker occurs again after its first occurrence\<close>
  "marker_recurs s =
     (case remainder_after_marker s of None \<Rightarrow> False | Some rest \<Rightarrow> contains marker rest)"

definition decodes :: "pystr \<Rightarrow> bool" where
  "decodes s = (case b64decode s of Inl e \<Rightarrow> False | Inr bytes \<Rightarrow> True)"

definition is_b64_char :: "nat \<Rightarrow> bool" where
  "is_b64_char c = (case b64_value c of None \<Rightarrow> False | Some v \<Rightarrow> True)"

definition valid_base64 :: "pystr \<Rightarrow> bool" where
  \<comment> \<open>canonical base64 text: alphabet characters, then at most two pad characters,
      the whole a multiple of four long\<close>
  "valid_base64 p =
     (let pad = dropWhile is_b64_char p
      in list_all (\<lambda>c. c = 61) pad \<and> length pad \<le> 2 \<and> length p mod 4 = 0)"

section \<open>Properties\<close>

subsection \<open>The structural gate\<close>

lemma evaluate_structure_passes:
  "fst (evaluate_structure result) = (is_list result \<and> length (items result) = 4)"
  by (simp add: evaluate_structure_def Let_def)

lemma not_four_array:
  assumes "\<And>xs. result = JArray xs \<Longrightarrow> length xs \<noteq> 4"
  shows "\<not> (is_list result \<and> length (items result) = 4)"
  using assms by (cases result) simp_all

text \<open>
  C3. A decoded submission that is not an array of exactly four elements (an object, a
  shorter or longer array, a scalar, null) fails the structural gate; the run returns
  at once, with the evaluator untouched by any content check, and the report carries
  score 0 and \<open>success = False\<close>.
\<close>

theorem structural_gate_failure_scores_zero:
  assumes "\<And>xs. result = JArray xs \<Longrightarrow> length xs \<noteq> 4"
  shows "fst (evaluate_structure result) = False \<and>
         (\<exists>r. run_evaluation B self result = Inr (r, self) \<and> score r = 0 \<and> success r = False)"
proof -
  from not_four_array [OF assms] have gate: "fst (evaluate_structure result) = False"
    by (simp add: evaluate_structure_passes)
  show ?thesis
  proof (cases "result = JNull")
    case True
    with gate show ?thesis by (simp add: run_evaluation_def)
  next
    case False
    with gate show ?thesis by (simp add: run_evaluation_def)
  qed
qed

theorem structural_gate_failure_scores_zero_witness:
  "(fst (evaluate_structure (JObject [])) = False \<and>
    (\<exists>r. run_evaluation \<lparr>parse_float = \<lambda>s. None, repr_of = \<lambda>v. []\<rparr>
            (DataAnalystEvaluator []) (JObject [])
          = Inr (r, DataAnalystEvaluator []) \<and> score r = 0 \<and> success r = False)) \<and>
   (fst (evaluate_structure (JArray [JInt 1, JInt 2, JInt 3])) = False \<and>
    (\<exists>r. run_evaluation \<lparr>parse_float = \<lambda>s. None, repr_of = \<lambda>v. []\<rparr>
            (DataAnalystEvaluator []) (JArray [JInt 1, JInt 2, JInt 3])
          = Inr (r, DataAnalystEvaluator []) \<and> score r = 0 \<and> success r = False)) \<and>
   (fst (evaluate_structure (JInt 7)) = False \<and>
    (\<exists>r. run_evaluation \<lparr>parse_float = \<lambda>s. None, repr_of = \<lambda>v. []\<rparr>
            (DataAnalystEvaluator []) (JInt 7)
          = Inr (r, DataAnalystEvaluator []) \<and> score r = 0 \<and> success r = False)) \<and>
   (fst (evaluate_structure JNull) = False \<and>
    (\<exists>r. run_evaluation \<lparr>parse_float = \<lambda>s. None, repr_of = \<lambda>v. []\<rparr>
            (DataAnalystEvaluator []) JNull
          = Inr (r, DataAnalystEvaluator []) \<and> score r = 0 \<and> success r = False))"
  using structural_gate_failure_scores_zero [of "JObject []"]
        structural_gate_failure_scores_zero [of "JArray [JInt 1, JInt 2, JInt 3]"]
        structural_gate_failure_scores_zero [of "JInt 7"]
        structural_gate_failure_scores_zero [of JNull]
  by simp

text \<open>
  C4, as the code has it. When a submission other than \<^verbatim>\<open>None\<close> fails the structural
  gate, the report carries score 0, \<open>success = False\<close> and one fixed text, whatever the
  shape of the failure. The two shapes are told apart only by the line the gate prints:
  one text for a value that is not an array, another, naming the length, for an
  array of the wrong length.
\<close>

theorem structural_failure_report_is_fixed:
  assumes "result \<noteq> JNull" and "fst (evaluate_structure result) = False"
  shows "run_evaluation B self result =
           Inr (\<lparr>success = False, score = 0, report_max_score = max_score self,
                 percentage = JInt 0,
                 details = py ''Failed structural validation - not a 4-element array'',
                 response = None\<rparr>, self) \<and>
         last (snd (evaluate_structure result)) =
           (if is_list result
            then 10060 # py '' Array has '' @ digits (length (items result))
                   @ py '' elements, expected 4''
            else 10060 # py '' Response is not an array'') \<and>
         10060 # py '' Array has '' @ digits n @ py '' elements, expected 4''
           \<noteq> 10060 # py '' Response is not an array''"
proof -
  from assms have "run_evaluation B self result =
           Inr (\<lparr>success = False, score = 0, report_max_score = max_score self,
                 percentage = JInt 0,
                 details = py ''Failed structural validation - not a 4-element array'',
                 response = None\<rparr>, self)"
    by (simp add: run_evaluation_def)
  moreover from assms(2) have "last (snd (evaluate_structure result)) =
           (if is_list result
            then 10060 # py '' Array has '' @ digits (length (items result))
                   @ py '' elements, expected 4''
            else 10060 # py '' Response is not an array'')"
    by (auto simp: evaluate_structure_def Let_def)
  moreover have "10060 # py '' Array has '' @ digits n @ py '' elements, expected 4''
           \<noteq> 10060 # py '' Response is not an array''"
    by (simp add: py_def)
  ultimately show ?thesis by blast
qed

theorem structural_failure_report_is_fixed_witness:
  "run_evaluation \<lparr>parse_float = \<lambda>s. None, repr_of = \<lambda>v. []\<rparr>
      (DataAnalystEvaluator []) (JArray [JInt 1, JInt 2, JInt 3]) =
     Inr (\<lparr>success = False, score = 0, report_max_score = 20, percentage = JInt 0,
           details = py ''Failed structural validation - not a 4-element array'',
           response = None\<rparr>, DataAnalystEvaluator []) \<and>
   last (snd (evaluate_structure (JArray [JInt 1, JInt 2, JInt 3]))) =
     10060 # py '' Array has 3 elements, expected 4'' \<and>
   last (snd (evaluate_structure (JObject []))) = 10060 # py '' Response is not an array''"
proof -
  have a: "JArray [JInt 1, JInt 2, JInt 3] \<noteq> JNull" and b: "JObject [] \<noteq> JNull"
    by simp_all
  have c: "fst (evaluate_structure (JArray [JInt 1, JInt 2, JInt 3])) = False"
    and d: "fst (evaluate_structure (JObject [])) = False"
    by (simp_all add: evaluate_structure_passes)
  have e: "digits (Suc (Suc (Suc 0))) = [51]"
    by (simp add: digits.simps)
  show ?thesis
    using structural_failure_report_is_fixed [OF a c, of _ "DataAnalystEvaluator []" 0]
          structural_failure_report_is_fixed [OF b d, of _ "DataAnalystEvaluator []" 0]
    by (simp add: e DataAnalystEvaluator_def py_def)
qed

text \<open>
  The claim as the specification states it fails: an object (not a sequence) and an
  empty array (a sequence of the wrong length) both fail the gate and produce the same
  report, diagnostic text included.
\<close>

theorem structural_failure_report_counterexample:
  "fst (evaluate_structure (JObject [])) = False \<and>
   fst (evaluate_structure (JArray [])) = False \<and>
   \<not> is_list (JObject []) \<and> is_list (JArray []) \<and>
   run_evaluation \<lparr>parse_float = \<lambda>s. None, repr_of = \<lambda>v. []\<rparr>
      (DataAnalystEvaluator []) (JObject []) =
   run_evaluation \<lparr>parse_float = \<lambda>s. None, repr_of = \<lambda>v. []\<rparr>
      (DataAnalystEvaluator []) (JArray [])"
  by (simp add: evaluate_structure_passes run_evaluation_def)

subsection \<open>The scalar checks\<close>

lemma eq_1_cases: "eq_1 a = (a = JInt 1 \<or> a = JBool True \<or> a = JFloat (Finite 1))"
  by (cases a) auto

lemma first_answer_awarded:
  "awarded evaluate_first_answer self (JArray [a, b, c, d]) = (if eq_1 a then 4 else 0)"
  by (auto simp: awarded_def evaluate_first_answer_def first_answer_try_def split: sum.splits)

lemma second_answer_awarded:
  "awarded (evaluate_second_answer B) self (JArray [a, b, c, d]) =
     (if re_search_ci (py ''titanic'') (str_py B b) \<and> print_ok b then 4 else 0)"
  by (simp add: awarded_def evaluate_second_answer_def second_answer_try_def Let_def)

lemma third_answer_awarded:
  "awarded (evaluate_third_answer B) self (JArray [a, b, c, d]) =
     (case float_py B c of
        Inl e \<Rightarrow> 0
      | Inr x \<Rightarrow> if float_le (float_abs (float_sub x expected)) tolerance then 4 else 0)"
  by (simp add: awarded_def evaluate_third_answer_def third_answer_try_def split: sum.splits)

text \<open>
  C7, as the code has it. On a four-element submission Check A awards its 4 points
  exactly when element 0 compares equal to 1 under \<^verbatim>\<open>==\<close>: the integer 1, the float
  1.0 or the boolean true. Every other value earns 0 points.
\<close>

theorem first_answer_awards_on_equality:
  "awarded evaluate_first_answer self (JArray [a, b, c, d]) =
     (if a = JInt 1 \<or> a = JFloat (Finite 1) \<or> a = JBool True then 4 else 0)"
  by (auto simp: first_answer_awarded eq_1_cases)

theorem first_answer_awards_on_equality_witness:
  "awarded evaluate_first_answer (DataAnalystEvaluator []) (JArray [JInt 1, JNull, JNull, JNull]) = 4 \<and>
   awarded evaluate_first_answer (DataAnalystEvaluator []) (JArray [JInt 2, JNull, JNull, JNull]) = 0 \<and>
   awarded evaluate_first_answer (DataAnalystEvaluator [])
     (JArray [JString (py ''1''), JNull, JNull, JNull]) = 0"
  using first_answer_awards_on_equality [of "DataAnalystEvaluator []" "JInt 1" JNull JNull JNull]
        first_answer_awards_on_equality [of "DataAnalystEvaluator []" "JInt 2" JNull JNull JNull]
        first_answer_awards_on_equality
          [of "DataAnalystEvaluator []" "JString (py ''1'')" JNull JNull JNull]
  by simp

text \<open>
  The claim as the specification states it fails: the float 1.0 and the boolean true are
  not the integer 1, and each earns the 4 points of Check A.
\<close>

theorem first_answer_strict_equality_counterexample:
  "JFloat (Finite 1) \<noteq> JInt 1 \<and>
   awarded evaluate_first_answer (DataAnalystEvaluator [])
     (JArray [JFloat (Finite 1), JNull, JNull, JNull]) = 4 \<and>
   JBool True \<noteq> JInt 1 \<and>
   awarded evaluate_first_answer (DataAnalystEvaluator [])
     (JArray [JBool True, JNull, JNull, JNull]) = 4"
  by (simp add: awarded_def evaluate_first_answer_def first_answer_try_def)

subsection \<open>The plot check: strings and the marker\<close>

lemma marker_nonempty: "marker \<noteq> []"
  by (simp add: marker_def py_def)

lemma marker_chars: "marker = [98, 97, 115, 101, 54, 52, 44]"
  by (simp add: marker_def py_def)

lemma utf8_len_ascii: "list_all (\<lambda>c. c < 128) s \<Longrightarrow> utf8_len s = Some (length s)"
  by (induction s) (simp_all add: is_surrogate_def)

lemma find_sep_absent: "x \<notin> set s \<Longrightarrow> find_sep (x # xs) s = None"
  by (induction s) auto

lemma find_sep_marker_prefix: "find_sep marker (marker @ p) = Some ([], p)"
  by (simp add: marker_chars)

lemma py_split_found:
  "find_sep marker s = Some (before, after) \<Longrightarrow>
   py_split marker s = before # py_split marker after"
  by (subst py_split.simps) (simp add: marker_nonempty)

lemma py_split_not_found: "find_sep marker s = None \<Longrightarrow> py_split marker s = [s]"
  by (subst py_split.simps) simp

text \<open>
  The piece \<^verbatim>\<open>plot_data.split('base64,')[1]\<close> is the text between the first marker and
  the next one: the inner \<^verbatim>\<open>try\<close> block decodes that piece.
\<close>

lemma can_decode_try_segment:
  "can_decode_try s =
     (case segment_after_marker s of
        None \<Rightarrow> Inr False
      | Some seg \<Rightarrow> (case b64decode seg of Inl e \<Rightarrow> Inl e | Inr decoded \<Rightarrow> Inr True))"
proof (cases "find_sep marker s")
  case None
  then show ?thesis
    by (simp add: can_decode_try_def contains_def segment_after_marker_def)
next
  case (Some ba)
  then obtain before after where found: "find_sep marker s = Some (before, after)"
    by (cases ba) simp
  show ?thesis
  proof (cases "find_sep marker after")
    case None
    with found show ?thesis
      by (simp add: can_decode_try_def contains_def segment_after_marker_def
            py_split_found py_split_not_found)
  next
    case (Some sr)
    then obtain seg rest where "find_sep marker after = Some (seg, rest)"
      by (cases sr) simp
    with found show ?thesis
      by (simp add: can_decode_try_def contains_def segment_after_marker_def py_split_found)
  qed
qed

lemma criteria_met_string:
  "criteria_met (JArray [a, b, c, JString s]) =
     (case utf8_len s of
        None \<Rightarrow> Inl UnicodeEncodeError
      | Some n \<Rightarrow>
          Inr [startswith s (py ''data:image/''), contains marker s, n < 100000,
               (case can_decode_try s of Inl e \<Rightarrow> False | Inr ok \<Rightarrow> ok)])"
  by (simp add: criteria_met_def Let_def split: option.splits)


lemma decode_criterion:
  "criterion_points 3 (JArray [a, b, c, JString s]) =
     (if utf8_len s \<noteq> None \<and>
         (case segment_after_marker s of None \<Rightarrow> False | Some seg \<Rightarrow> decodes seg)
      then 2 else 0)"
  by (auto simp: criterion_points_def criteria_met_string can_decode_try_segment decodes_def
           split: option.splits sum.splits)

lemma a2b_base64_skips:
  "list_all (\<lambda>c. \<not> is_b64_char c) p \<Longrightarrow> a2b_base64 p 0 leftchar pads out = Inr out"
  by (induction p) (auto simp: is_b64_char_def split: option.splits)

text \<open>
  Canonical base64 text is accepted by the decoder, and it cannot contain the marker,
  whose last character is a comma.
\<close>

lemma is_b64_char_ascii: "is_b64_char c \<Longrightarrow> c < 128 \<and> c \<noteq> 61 \<and> c \<noteq> 44"
  by (auto simp: is_b64_char_def b64_value_def split: if_splits)

lemma a2b_base64_alphabet:
  assumes "list_all is_b64_char xs" and "q < 4"
    and tail: "\<And>lc pads out. \<exists>bytes. a2b_base64 rest ((q + length xs) mod 4) lc pads out = Inr bytes"
  shows "\<exists>bytes. a2b_base64 (xs @ rest) q lc pads out = Inr bytes"
  using assms
proof (induction xs arbitrary: q lc pads out)
  case Nil
  then show ?case by simp
next
  case (Cons x xs)
  from Cons.prems(1) have x: "is_b64_char x" and xs: "list_all is_b64_char xs"
    by simp_all
  from x obtain v where v: "b64_value x = Some v" and ne: "x \<noteq> 61"
    using is_b64_char_ascii [of x] by (auto simp: is_b64_char_def split: option.splits)
  have step: "\<exists>bytes. a2b_base64 (xs @ rest) q' lc' pads' out' = Inr bytes"
    if q': "q' = (q + 1) mod 4" for q' lc' pads' out'
  proof (rule Cons.IH [OF xs])
    show "q' < 4" by (simp add: q')
  next
    fix lc pads out
    have "(q' + length xs) mod 4 = (q + length (x # xs)) mod 4"
      by (simp add: q' mod_add_left_eq)
    with Cons.prems(3) [of lc pads out]
    show "\<exists>bytes. a2b_base64 rest ((q' + length xs) mod 4) lc pads out = Inr bytes"
      by simp
  qed
  from Cons.prems(2) consider "q = 0" | "q = 1" | "q = 2" | "q = 3"
    by linarith
  then show ?case
  proof cases
    case 1
    with step [of 1 v 0 out] v ne show ?thesis by simp
  next
    case 2
    with step [of 2 "v mod 16" 0 "out @ [(lc * 4 + v div 16) mod 256]"] v ne show ?thesis by simp
  next
    case 3
    with step [of 3 "v mod 4" 0 "out @ [(lc * 16 + v div 4) mod 256]"] v ne show ?thesis by simp
  next
    case 4
    with step [of 0 0 0 "out @ [(lc * 64 + v) mod 256]"] v ne show ?thesis by simp
  qed
qed

lemma valid_base64_decodes:
  assumes "valid_base64 p"
  shows "decodes p"
proof -
  define body where "body = takeWhile is_b64_char p"
  define pad where "pad = dropWhile is_b64_char p"
  have p: "p = body @ pad"
    by (simp add: body_def pad_def)
  have body: "list_all is_b64_char body"
    by (simp add: body_def list_all_iff) (meson set_takeWhileD)
  from assms have pad61: "list_all (\<lambda>c. c = 61) pad" and padlen: "length pad \<le> 2"
    and len: "(length body + length pad) mod 4 = 0"
    unfolding valid_base64_def Let_def pad_def [symmetric] by (simp_all add: p)
  from pad61 padlen have pads: "pad = [] \<or> pad = [61] \<or> pad = [61, 61]"
    by (cases pad; cases "tl pad"; cases "tl (tl pad)") auto
  have ascii: "list_all (\<lambda>c. c < 128) p"
    using body pad61 is_b64_char_ascii unfolding p by (auto simp: list_all_iff)
  have tail: "\<exists>bytes. a2b_base64 pad ((0 + length body) mod 4) lc pads out = Inr bytes"
    for lc pads out
    using pads
  proof (elim disjE)
    assume "pad = []"
    with len show ?thesis by simp
  next
    assume e: "pad = [61]"
    with len have "length body mod 4 = 3" by (simp add: mod_Suc split: if_splits)
    with e show ?thesis by simp
  next
    assume e: "pad = [61, 61]"
    with len have "length body mod 4 = 2" by (simp add: mod_Suc split: if_splits)
    with e show ?thesis by simp
  qed
  have "\<exists>bytes. a2b_base64 (body @ pad) 0 0 0 [] = Inr bytes"
    by (rule a2b_base64_alphabet [OF body _ tail]) simp
  with ascii show ?thesis
    by (auto simp: decodes_def b64decode_def p)
qed

lemma startswith_set: "startswith s sep \<Longrightarrow> set sep \<subseteq> set s"
  by (induction s sep rule: startswith.induct) auto

lemma find_sep_missing_char: "y \<in> set sep \<Longrightarrow> y \<notin> set s \<Longrightarrow> find_sep sep s = None"
proof (induction s)
  case Nil
  then show ?case by auto
next
  case (Cons c cs)
  from Cons.prems startswith_set [of "c # cs" sep] have "\<not> startswith (c # cs) sep"
    by auto
  with Cons show ?case by simp
qed

lemma valid_base64_no_marker:
  assumes "valid_base64 p"
  shows "find_sep marker p = None"
proof -
  have "44 \<notin> set p"
  proof
    assume m: "44 \<in> set p"
    from assms have "list_all (\<lambda>c. c = 61) (dropWhile is_b64_char p)"
      by (simp add: valid_base64_def Let_def)
    then have "44 \<notin> set (dropWhile is_b64_char p)" by (auto simp: list_all_iff)
    moreover have "44 \<notin> set (takeWhile is_b64_char p)"
      using is_b64_char_ascii [of 44] by (auto dest: set_takeWhileD)
    moreover have "set p = set (takeWhile is_b64_char p) \<union> set (dropWhile is_b64_char p)"
      by (metis set_append takeWhile_dropWhile_id)
    ultimately show False using m by blast
  qed
  then show ?thesis
    by (rule find_sep_missing_char [rotated]) (simp add: marker_chars)
qed

subsection \<open>Rounding never overflows on the quotients of a run\<close>

lemma round_half_even_bound: "\<bar>of_int (round_half_even x) :: rat\<bar> \<le> \<bar>x\<bar> + 1"
proof -
  have near: "\<bar>rat_of_int n\<bar> \<le> \<bar>x\<bar> + 1 \<and> \<bar>rat_of_int (n + 1)\<bar> \<le> \<bar>x\<bar> + 1"
    if "of_int n \<le> x" and "x < of_int n + 1" for n :: int
    using that by simp linarith
  have "round_half_even x = \<lfloor>x\<rfloor> \<or> round_half_even x = \<lfloor>x\<rfloor> + 1"
    by (simp add: round_half_even_def Let_def)
  moreover have "of_int \<lfloor>x\<rfloor> \<le> x" and "x < of_int \<lfloor>x\<rfloor> + 1"
    by linarith+
  from near [OF this] have "\<bar>rat_of_int \<lfloor>x\<rfloor>\<bar> \<le> \<bar>x\<bar> + 1"
    and "\<bar>rat_of_int (\<lfloor>x\<rfloor> + 1)\<bar> \<le> \<bar>x\<bar> + 1"
    by blast+
  ultimately show ?thesis by metis
qed

lemma floor_log2_small: "0 < q \<Longrightarrow> q \<le> 2 \<Longrightarrow> floor_log2 q \<le> 1"
proof (cases "1 \<le> q")
  case True
  assume "q \<le> 2"
  with True have "\<lfloor>q\<rfloor> = 1 \<or> \<lfloor>q\<rfloor> = 2" by linarith
  then show ?thesis
    using True by (auto simp: floor_log2_def bit_length.simps)
next
  case False
  then show ?thesis by (simp add: floor_log2_def)
qed

lemma floor_log2_unit: "0 < q \<Longrightarrow> q \<le> 1 \<Longrightarrow> floor_log2 q \<le> 0"
  by (cases "q = 1") (simp_all add: floor_log2_def bit_length.simps)

lemma round_double_unit_finite:
  assumes "\<bar>q\<bar> \<le> 1"
  shows "\<not> is_inf (round_double q)"
proof (cases "q = 0")
  case True
  then show ?thesis by (simp add: round_double_def)
next
  case False
  define e where "e = max (floor_log2 \<bar>q\<bar>) (- 1022)"
  define ulp where "ulp = pow2 (e - 52)"
  define r :: rat where "r = of_int (round_half_even (q / ulp)) * ulp"
  from False assms have "e \<le> 0"
    unfolding e_def using floor_log2_unit [of "\<bar>q\<bar>"] by simp
  then have ulp: "ulp = 1 / 2 ^ nat (52 - e)"
    by (simp add: ulp_def pow2_def)
  have "(1::rat) \<le> 2 ^ nat (52 - e)" by simp
  with ulp have pos: "0 < ulp" and small: "ulp \<le> 1"
    by (simp_all add: divide_le_eq)
  have "\<bar>r\<bar> = \<bar>of_int (round_half_even (q / ulp))\<bar> * ulp"
    using pos by (simp add: r_def abs_mult)
  also have "\<dots> \<le> (\<bar>q / ulp\<bar> + 1) * ulp"
    using round_half_even_bound [of "q / ulp"] pos by (simp add: mult_right_mono)
  also have "\<dots> = \<bar>q\<bar> + ulp"
    using pos by (simp add: field_simps abs_mult)
  finally have "\<bar>r\<bar> \<le> 2" using assms small by linarith
  then have "r \<noteq> 0 \<Longrightarrow> \<not> 1024 \<le> floor_log2 \<bar>r\<bar>"
    using floor_log2_small [of "\<bar>r\<bar>"] by simp
  then show ?thesis
    using False unfolding r_def ulp_def e_def
    by (auto simp: round_double_def Let_def)
qed

lemma int_truediv_20_returns:
  assumes "0 \<le> t" "t \<le> 20"
  shows "\<exists>f. int_truediv t 20 = Inr f"
proof -
  have "\<bar>rat_of_int t / 20\<bar> \<le> 1" using assms by simp
  from round_double_unit_finite [OF this] show ?thesis
    by (simp add: int_truediv_def Let_def)
qed

subsection \<open>What each check adds to the accumulator\<close>

text \<open>
  Each check adds to \<open>total_score\<close> a number of points that depends on the submission
  only, not on the accumulator it finds (\<open>self0\<close> below is arbitrary).
\<close>

lemma second_answer_state:
  "snd (evaluate_second_answer B self result) =
     self\<lparr>total_score := total_score self + awarded (evaluate_second_answer B) self0 result\<rparr>"
  by (auto simp: awarded_def evaluate_second_answer_def second_answer_try_def Let_def split: sum.splits)

lemma second_answer_range: "awarded (evaluate_second_answer B) self result \<in> {0, 4}"
  by (auto simp: awarded_def evaluate_second_answer_def second_answer_try_def Let_def split: sum.splits)

lemma first_answer_state:
  "snd (evaluate_first_answer self result) =
     self\<lparr>total_score := total_score self + awarded evaluate_first_answer self0 result\<rparr>"
  by (auto simp: awarded_def evaluate_first_answer_def first_answer_try_def Let_def split: sum.splits)

lemma first_answer_range: "awarded evaluate_first_answer self result \<in> {0, 4}"
  by (auto simp: awarded_def evaluate_first_answer_def first_answer_try_def Let_def split: sum.splits)

lemma third_answer_state:
  "snd (evaluate_third_answer B self result) =
     self\<lparr>total_score := total_score self + awarded (evaluate_third_answer B) self0 result\<rparr>"
  by (auto simp: awarded_def evaluate_third_answer_def third_answer_try_def Let_def split: sum.splits)

lemma third_answer_range: "awarded (evaluate_third_answer B) self result \<in> {0, 4}"
  by (auto simp: awarded_def evaluate_third_answer_def third_answer_try_def Let_def split: sum.splits)

lemma plot_awarded:
  "awarded evaluate_plot self result =
     (case criteria_met result of Inl e \<Rightarrow> 0 | Inr cs \<Rightarrow> int (length (filter id cs)) * 2)"
  by (simp add: awarded_def evaluate_plot_def plot_try_def Let_def split: sum.splits)

lemma plot_state:
  "snd (evaluate_plot self result) =
     self\<lparr>total_score := total_score self + awarded evaluate_plot self0 result\<rparr>"
  by (simp add: plot_awarded) (simp add: evaluate_plot_def plot_try_def Let_def split: sum.splits)

lemma criteria_met_length: "criteria_met result = Inr cs \<Longrightarrow> length cs = 4"
  by (auto simp: criteria_met_def Let_def split: sum.splits json.splits option.splits)

lemma plot_awarded_sum:
  "awarded evaluate_plot self result =
     criterion_points 0 result + criterion_points 1 result + criterion_points 2 result + criterion_points 3 result"
proof (cases "criteria_met result")
  case (Inl e)
  then show ?thesis by (simp add: plot_awarded criterion_points_def)
next
  case (Inr cs)
  from criteria_met_length [OF this] obtain c1 c2 c3 c4 where "cs = [c1, c2, c3, c4]"
    by (auto simp: length_Suc_conv numeral_eq_Suc)
  with Inr show ?thesis by (simp add: plot_awarded criterion_points_def)
qed

lemma plot_awarded_range: "awarded evaluate_plot self result \<in> {0, 2, 4, 6, 8}"
proof -
  have "criterion_points k result \<in> {0, 2}" for k
    by (simp add: criterion_points_def split: sum.splits)
  from this [of 0] this [of 1] this [of 2] this [of 3] show ?thesis
    unfolding plot_awarded_sum by auto
qed

subsection \<open>A whole run\<close>

lemma run_evaluation_four:
  "run_evaluation B self (JArray [a, b, c, d]) =
     (case int_truediv
             (total_score self + awarded evaluate_first_answer self (JArray [a, b, c, d])
                + awarded (evaluate_second_answer B) self (JArray [a, b, c, d])
                + awarded (evaluate_third_answer B) self (JArray [a, b, c, d])
                + awarded evaluate_plot self (JArray [a, b, c, d]))
             (max_score self) of
        Inl e \<Rightarrow> Inl e
      | Inr ratio \<Rightarrow>
          Inr (\<lparr>success = True,
                score = total_score self + awarded evaluate_first_answer self (JArray [a, b, c, d])
                  + awarded (evaluate_second_answer B) self (JArray [a, b, c, d])
                  + awarded (evaluate_third_answer B) self (JArray [a, b, c, d])
                  + awarded evaluate_plot self (JArray [a, b, c, d]),
                report_max_score = max_score self,
                percentage = JFloat (float_mul ratio (Finite 100)),
                details = py ''Evaluation completed successfully'',
                response = Some (JArray [a, b, c, d])\<rparr>,
               self\<lparr>total_score := total_score self
                  + awarded evaluate_first_answer self (JArray [a, b, c, d])
                  + awarded (evaluate_second_answer B) self (JArray [a, b, c, d])
                  + awarded (evaluate_third_answer B) self (JArray [a, b, c, d])
                  + awarded evaluate_plot self (JArray [a, b, c, d])\<rparr>))"
proof -
  let ?R = "JArray [a, b, c, d]"
  have gate: "fst (evaluate_structure ?R)"
    by (simp add: evaluate_structure_passes)
  have s1: "snd (evaluate_first_answer self ?R) =
      self\<lparr>total_score := total_score self + awarded evaluate_first_answer self ?R\<rparr>"
    by (rule first_answer_state)
  have s2: "snd (evaluate_second_answer B (snd (evaluate_first_answer self ?R)) ?R) =
      self\<lparr>total_score := total_score self + awarded evaluate_first_answer self ?R
        + awarded (evaluate_second_answer B) self ?R\<rparr>"
    by (subst second_answer_state [where ?self0.0 = self]) (simp add: s1)
  have s3: "snd (evaluate_third_answer B
                  (snd (evaluate_second_answer B (snd (evaluate_first_answer self ?R)) ?R)) ?R) =
      self\<lparr>total_score := total_score self + awarded evaluate_first_answer self ?R
        + awarded (evaluate_second_answer B) self ?R
        + awarded (evaluate_third_answer B) self ?R\<rparr>"
    by (subst third_answer_state [where ?self0.0 = self]) (simp add: s2)
  have s4: "snd (evaluate_plot (snd (evaluate_third_answer B
                  (snd (evaluate_second_answer B (snd (evaluate_first_answer self ?R)) ?R)) ?R)) ?R) =
      self\<lparr>total_score := total_score self + awarded evaluate_first_answer self ?R
        + awarded (evaluate_second_answer B) self ?R
        + awarded (evaluate_third_answer B) self ?R
        + awarded evaluate_plot self ?R\<rparr>"
    by (subst plot_state [where ?self0.0 = self]) (simp add: s3)
  show ?thesis
    by (simp add: run_evaluation_def gate Let_def s4 split: sum.splits)
qed

lemma fresh_total_bounds:
  "0 \<le> awarded evaluate_first_answer self R + awarded (evaluate_second_answer B) self R
       + awarded (evaluate_third_answer B) self R + awarded evaluate_plot self R \<and>
   awarded evaluate_first_answer self R + awarded (evaluate_second_answer B) self R
       + awarded (evaluate_third_answer B) self R + awarded evaluate_plot self R \<le> 20 \<and>
   even (awarded evaluate_first_answer self R + awarded (evaluate_second_answer B) self R
       + awarded (evaluate_third_answer B) self R + awarded evaluate_plot self R)"
  using first_answer_range [of self R] second_answer_range [of B self R]
        third_answer_range [of B self R] plot_awarded_range [of self R]
  by auto

lemma run_evaluation_fresh_four:
  "\<exists>ratio. run_evaluation B (DataAnalystEvaluator url) (JArray [a, b, c, d]) =
      Inr (\<lparr>success = True,
            score = awarded evaluate_first_answer (DataAnalystEvaluator url) (JArray [a, b, c, d])
                  + awarded (evaluate_second_answer B) (DataAnalystEvaluator url) (JArray [a, b, c, d])
                  + awarded (evaluate_third_answer B) (DataAnalystEvaluator url) (JArray [a, b, c, d])
                  + awarded evaluate_plot (DataAnalystEvaluator url) (JArray [a, b, c, d]),
            report_max_score = 20,
            percentage = JFloat (float_mul ratio (Finite 100)),
            details = py ''Evaluation completed successfully'',
            response = Some (JArray [a, b, c, d])\<rparr>,
           \<lparr>api_url = url,
            total_score = awarded evaluate_first_answer (DataAnalystEvaluator url) (JArray [a, b, c, d])
                  + awarded (evaluate_second_answer B) (DataAnalystEvaluator url) (JArray [a, b, c, d])
                  + awarded (evaluate_third_answer B) (DataAnalystEvaluator url) (JArray [a, b, c, d])
                  + awarded evaluate_plot (DataAnalystEvaluator url) (JArray [a, b, c, d]),
            max_score = 20\<rparr>)"
proof -
  let ?S = "DataAnalystEvaluator url" and ?R = "JArray [a, b, c, d]"
  let ?t = "awarded evaluate_first_answer ?S ?R + awarded (evaluate_second_answer B) ?S ?R
              + awarded (evaluate_third_answer B) ?S ?R + awarded evaluate_plot ?S ?R"
  from fresh_total_bounds [of ?S ?R B] have "0 \<le> ?t" and "?t \<le> 20" by simp_all
  from int_truediv_20_returns [OF this] obtain f where f: "int_truediv ?t 20 = Inr f" ..
  have fields: "total_score ?S = 0" "max_score ?S = 20" "api_url ?S = url"
    by (simp_all add: DataAnalystEvaluator_def)
  have "?S\<lparr>total_score := ?t\<rparr> = \<lparr>api_url = url, total_score = ?t, max_score = 20\<rparr>"
    by (simp add: DataAnalystEvaluator_def)
  with f fields show ?thesis
    by (auto simp: run_evaluation_four)
qed

lemma four_array: "is_list result \<Longrightarrow> length (items result) = 4 \<Longrightarrow> \<exists>a b c d. result = JArray [a, b, c, d]"
  by (cases result) (auto simp: length_Suc_conv numeral_eq_Suc)

text \<open>
  C9. For every submission, a full evaluation on a freshly constructed evaluator returns
  a report whose score is an even integer between 0 and 20: each scalar check adds 0
  or 4, the plot check adds 2 for each sub-criterion that holds, and the early returns
  report 0.
\<close>

theorem fresh_score_even_and_bounded: "\<exists>r s. run_evaluation B (DataAnalystEvaluator url) result = Inr (r, s) \<and>
     even (score r) \<and> 0 \<le> score r \<and> score r \<le> 20"
proof (cases "is_list result \<and> length (items result) = 4")
  case True
  then obtain a b c d where R: "result = JArray [a, b, c, d]"
    using four_array by blast
  from run_evaluation_fresh_four [of B url a b c d] fresh_total_bounds [of "DataAnalystEvaluator url" "JArray [a, b, c, d]" B]
  show ?thesis unfolding R by auto
next
  case False
  then have "fst (evaluate_structure result) = False"
    by (simp add: evaluate_structure_passes)
  then show ?thesis
    by (cases "result = JNull") (simp_all add: run_evaluation_def)
qed

theorem fresh_score_even_and_bounded_witness:
  "\<exists>r s. run_evaluation \<lparr>parse_float = \<lambda>s. None, repr_of = \<lambda>v. []\<rparr> (DataAnalystEvaluator [])
            (JArray [JInt 1, JNull, JNull, JNull]) = Inr (r, s) \<and>
         even (score r) \<and> 0 \<le> score r \<and> score r \<le> 20"
  by (rule fresh_score_even_and_bounded)

subsection \<open>Particular submissions\<close>

text \<open>
  The tolerance test on two literals: 0.9 is far from the expected value, and the
  expected value itself is within tolerance.
\<close>

lemma third_answer_far: "\<not> float_le (float_abs (float_sub (round_double (9 / 10)) expected)) tolerance"
  by code_simp

lemma third_answer_exact: "float_le (float_abs (float_sub expected expected)) tolerance"
  by code_simp

lemma plot_all_criteria:
  assumes "startswith d (py ''data:image/'')"
    and "remainder_after_marker d = Some payload"
    and "valid_base64 payload"
    and "utf8_len d = Some n" and "n < 100000"
  shows "criteria_met (JArray [a, b, c, JString d]) = Inr [True, True, True, True]"
proof -
  from assms(2) obtain before where found: "find_sep marker d = Some (before, payload)"
    by (auto simp: remainder_after_marker_def split: option.splits)
  then have has: "contains marker d"
    by (simp add: contains_def)
  from found valid_base64_no_marker [OF assms(3)]
  have seg: "segment_after_marker d = Some payload"
    by (simp add: segment_after_marker_def)
  from valid_base64_decodes [OF assms(3)] obtain bytes where "b64decode payload = Inr bytes"
    by (auto simp: decodes_def split: sum.splits)
  with seg have "can_decode_try d = Inr True"
    by (simp add: can_decode_try_segment)
  with assms(1,4,5) has show ?thesis
    by (simp add: criteria_met_string)
qed

text \<open>
  The submission \<^verbatim>\<open>[2, "Unknown", 0.9, d]\<close> scores 8 of 20 on a fresh evaluator when
  \<open>d\<close> starts with \<^verbatim>\<open>data:image/\<close>, has a UTF-8 encoding of fewer than 100,000 bytes
  and carries canonical base64 text after the first marker (so the marker does not
  recur): the scalar checks award 0 each and the plot check awards 8.
\<close>

lemma canonical_payload_scores_8:
  assumes "startswith d (py ''data:image/'')"
    and "remainder_after_marker d = Some payload"
    and "valid_base64 payload"
    and "utf8_len d = Some n" and "n < 100000"
  shows "awarded evaluate_first_answer self
           (JArray [JInt 2, JString (py ''Unknown''), JFloat (round_double (9 / 10)), JString d]) = 0 \<and>
         awarded (evaluate_second_answer B) self
           (JArray [JInt 2, JString (py ''Unknown''), JFloat (round_double (9 / 10)), JString d]) = 0 \<and>
         awarded (evaluate_third_answer B) self
           (JArray [JInt 2, JString (py ''Unknown''), JFloat (round_double (9 / 10)), JString d]) = 0 \<and>
         awarded evaluate_plot self
           (JArray [JInt 2, JString (py ''Unknown''), JFloat (round_double (9 / 10)), JString d]) = 8 \<and>
         (\<exists>r s. run_evaluation B (DataAnalystEvaluator url)
                  (JArray [JInt 2, JString (py ''Unknown''), JFloat (round_double (9 / 10)), JString d])
                = Inr (r, s) \<and> score r = 8 \<and> report_max_score r = 20)"
proof -
  let ?R = "JArray [JInt 2, JString (py ''Unknown''), JFloat (round_double (9 / 10)), JString d]"
  have first: "awarded evaluate_first_answer self' ?R = 0" for self'
    by (simp add: first_answer_awarded)
  have "\<not> re_search_ci (py ''titanic'') (py ''Unknown'')"
    by (simp add: py_def ci_eq_def)
  then have second: "awarded (evaluate_second_answer B) self' ?R = 0" for self'
    by (simp add: second_answer_awarded)
  have third: "awarded (evaluate_third_answer B) self' ?R = 0" for self'
    by (simp add: third_answer_awarded third_answer_far)
  have plot: "awarded evaluate_plot self' ?R = 8" for self'
    by (simp add: plot_awarded plot_all_criteria [OF assms])
  from run_evaluation_fresh_four [of B url "JInt 2" "JString (py ''Unknown'')"
         "JFloat (round_double (9 / 10))" "JString d"]
  have "\<exists>r s. run_evaluation B (DataAnalystEvaluator url) ?R = Inr (r, s) \<and> score r = 8
          \<and> report_max_score r = 20"
    by (auto simp: first second third plot)
  with first second third plot show ?thesis by blast
qed


subsection \<open>Failures inside a check\<close>







lemma plot_broken_payload:
  "criteria_met (JArray [a, b, c, JString (py ''data:image/png;base64,A'')])
     = Inr [True, True, True, False]"
  "isl (can_decode_try (py ''data:image/png;base64,A''))"
proof -
  have seg: "segment_after_marker (py ''data:image/png;base64,A'') = Some (py ''A'')"
    by (simp add: segment_after_marker_def marker_chars py_def)
  have dec: "b64decode (py ''A'') = Inl BinasciiError"
    by (simp add: b64decode_def b64_value_def py_def)
  from seg dec show fails: "isl (can_decode_try (py ''data:image/png;base64,A''))"
    by (simp add: can_decode_try_segment)
  have "utf8_len (py ''data:image/png;base64,A'') = Some 23"
    by (simp add: is_surrogate_def py_def)
  moreover have "startswith (py ''data:image/png;base64,A'') (py ''data:image/'')"
    by (simp add: py_def)
  moreover have "contains marker (py ''data:image/png;base64,A'')"
    by (simp add: contains_def marker_chars py_def)
  ultimately show "criteria_met (JArray [a, b, c, JString (py ''data:image/png;base64,A'')])
     = Inr [True, True, True, False]"
    using seg dec by (simp add: criteria_met_string can_decode_try_segment)
qed

lemma plot_good_payload:
  "criteria_met (JArray [a, b, c, JString (py ''data:image/png;base64,QUJD'')])
     = Inr [True, True, True, True]"
proof (rule plot_all_criteria)
  show "startswith (py ''data:image/png;base64,QUJD'') (py ''data:image/'')"
    by (simp add: py_def)
  show "remainder_after_marker (py ''data:image/png;base64,QUJD'') = Some (py ''QUJD'')"
    by (simp add: remainder_after_marker_def marker_chars py_def)
  show "valid_base64 (py ''QUJD'')"
    by (simp add: valid_base64_def is_b64_char_def b64_value_def py_def)
  show "utf8_len (py ''data:image/png;base64,QUJD'') = Some 26"
    by (simp add: is_surrogate_def py_def)
  show "(26::nat) < 100000" by simp
qed




subsection \<open>The sub-criteria of the plot check\<close>

text \<open>
  The points the plot check adds are the sum of four shares, one for each entry of
  \<^verbatim>\<open>criteria_met\<close> (lemma \<open>plot_awarded_sum\<close>); the theorems below restate that sum for
  a string in position 3 and say when one share is 2.
\<close>

lemma segment_is_remainder:
  "\<not> marker_recurs s \<Longrightarrow> segment_after_marker s = remainder_after_marker s"
  by (auto simp: marker_recurs_def segment_after_marker_def remainder_after_marker_def
        contains_def split: option.splits)




text \<open>
  C2, as the code has it by design. For every string in position 3 in which the marker
  does not occur again after its first occurrence, the plot check adds the sum of the
  shares of its four sub-criteria, and the share of sub-criterion 4 is its 2 points
  exactly when the string has a UTF-8 encoding, contains the marker, and the whole
  text after the marker decodes as base64. Without the marker the share is 0. Strings in
  which the marker recurs are left out of the statement.
\<close>

theorem decode_criterion_follows_remainder:
  assumes "\<not> marker_recurs s"
  shows "awarded evaluate_plot self (JArray [a, b, c, JString s]) =
           criterion_points 0 (JArray [a, b, c, JString s])
             + criterion_points 1 (JArray [a, b, c, JString s])
             + criterion_points 2 (JArray [a, b, c, JString s])
             + criterion_points 3 (JArray [a, b, c, JString s]) \<and>
         criterion_points 3 (JArray [a, b, c, JString s]) =
           (if utf8_len s \<noteq> None \<and>
               (case remainder_after_marker s of None \<Rightarrow> False | Some rest \<Rightarrow> decodes rest)
            then 2 else 0)"
  using plot_awarded_sum [of self "JArray [a, b, c, JString s]"] decode_criterion [of a b c s]
    segment_is_remainder [OF assms]
  by simp

theorem decode_criterion_follows_remainder_witness:
  "(\<not> marker_recurs (py ''data:image/png;base64,QUJD'') \<and>
    criterion_points 3 (JArray [JNull, JNull, JNull, JString (py ''data:image/png;base64,QUJD'')]) = 2 \<and>
    awarded evaluate_plot (DataAnalystEvaluator [])
      (JArray [JNull, JNull, JNull, JString (py ''data:image/png;base64,QUJD'')]) = 8) \<and>
   (\<not> marker_recurs (py ''data:image/png;base64,A'') \<and>
    criterion_points 3 (JArray [JNull, JNull, JNull, JString (py ''data:image/png;base64,A'')]) = 0 \<and>
    awarded evaluate_plot (DataAnalystEvaluator [])
      (JArray [JNull, JNull, JNull, JString (py ''data:image/png;base64,A'')]) = 6) \<and>
   (\<not> marker_recurs (py ''data:image/png;QUJD'') \<and>
    criterion_points 3 (JArray [JNull, JNull, JNull, JString (py ''data:image/png;QUJD'')]) = 0)"
proof -
  have r: "remainder_after_marker (py ''data:image/png;base64,QUJD'') = Some (py ''QUJD'')"
    "remainder_after_marker (py ''data:image/png;base64,A'') = Some (py ''A'')"
    "remainder_after_marker (py ''data:image/png;QUJD'') = None"
    by (simp_all add: remainder_after_marker_def marker_chars py_def)
  have n: "\<not> contains marker (py ''QUJD'')" "\<not> contains marker (py ''A'')"
    by (simp_all add: contains_def marker_chars py_def)
  from r n have h: "\<not> marker_recurs (py ''data:image/png;base64,QUJD'')"
    "\<not> marker_recurs (py ''data:image/png;base64,A'')"
    "\<not> marker_recurs (py ''data:image/png;QUJD'')"
    by (simp_all add: marker_recurs_def)
  have d: "decodes (py ''QUJD'')" "\<not> decodes (py ''A'')"
    by (simp_all add: decodes_def b64decode_def b64_value_def py_def)
  have u: "utf8_len (py ''data:image/png;base64,QUJD'') \<noteq> None"
    "utf8_len (py ''data:image/png;base64,A'') \<noteq> None"
    by (simp_all add: is_surrogate_def py_def)
  from decode_criterion_follows_remainder [OF h(1), of "DataAnalystEvaluator []" JNull JNull JNull]
       decode_criterion_follows_remainder [OF h(2), of "DataAnalystEvaluator []" JNull JNull JNull]
       decode_criterion_follows_remainder [OF h(3), of "DataAnalystEvaluator []" JNull JNull JNull]
  show ?thesis
    using h by (simp add: r d u plot_awarded plot_good_payload plot_broken_payload)
qed

text \<open>
  The claim as the specification states it fails on two inputs. In the first a lone
  surrogate precedes the marker: the remainder decodes, yet encoding the string raises
  before the decoding step is reached, the whole plot check is abandoned and adds
  nothing. In the second the marker recurs: the whole remainder after the first marker
  decodes, yet the piece the code decodes does not, and sub-criterion 4 is not met.
\<close>

theorem decode_criterion_remainder_counterexample:
  "contains marker (55296 # py ''base64,QUJD'') \<and>
   remainder_after_marker (55296 # py ''base64,QUJD'') = Some (py ''QUJD'') \<and>
   decodes (py ''QUJD'') \<and>
   criteria_met (JArray [JNull, JNull, JNull, JString (55296 # py ''base64,QUJD'')])
     = Inl UnicodeEncodeError \<and>
   awarded evaluate_plot (DataAnalystEvaluator [])
     (JArray [JNull, JNull, JNull, JString (55296 # py ''base64,QUJD'')]) = 0 \<and>
   contains marker (py ''base64,Abase64,A'') \<and>
   remainder_after_marker (py ''base64,Abase64,A'') = Some (py ''Abase64,A'') \<and>
   decodes (py ''Abase64,A'') \<and>
   criteria_met (JArray [JNull, JNull, JNull, JString (py ''base64,Abase64,A'')])
     = Inr [False, True, True, False] \<and>
   awarded evaluate_plot (DataAnalystEvaluator [])
     (JArray [JNull, JNull, JNull, JString (py ''base64,Abase64,A'')]) = 4"
proof -
  have c: "contains marker (py ''base64,Abase64,A'')"
    "contains marker (55296 # py ''base64,QUJD'')"
    by (simp_all add: contains_def marker_chars py_def)
  have r: "remainder_after_marker (py ''base64,Abase64,A'') = Some (py ''Abase64,A'')"
    "remainder_after_marker (55296 # py ''base64,QUJD'') = Some (py ''QUJD'')"
    by (simp_all add: remainder_after_marker_def marker_chars py_def)
  have d: "decodes (py ''Abase64,A'')" "decodes (py ''QUJD'')"
    by (simp_all add: decodes_def b64decode_def b64_value_def py_def)
  have seg: "segment_after_marker (py ''base64,Abase64,A'') = Some (py ''A'')"
    by (simp add: segment_after_marker_def marker_chars py_def)
  have bad: "b64decode (py ''A'') = Inl BinasciiError"
    by (simp add: b64decode_def b64_value_def py_def)
  have u: "utf8_len (py ''base64,Abase64,A'') = Some 16"
    by (simp add: is_surrogate_def py_def)
  have st: "\<not> startswith (py ''base64,Abase64,A'') (py ''data:image/'')"
    by (simp add: py_def)
  have m1: "criteria_met (JArray [JNull, JNull, JNull, JString (55296 # py ''base64,QUJD'')])
     = Inl UnicodeEncodeError"
    by (simp add: criteria_met_string is_surrogate_def)
  have m2: "criteria_met (JArray [JNull, JNull, JNull, JString (py ''base64,Abase64,A'')])
     = Inr [False, True, True, False]"
    using c(1) seg bad u st by (simp add: criteria_met_string can_decode_try_segment)
  from c r d m1 m2 show ?thesis
    by (simp add: plot_awarded)
qed

text \<open>
  C10. When the text after the marker consists only of ASCII characters outside the
  base64 alphabet (such as \<^verbatim>\<open>!!!\<close>), the share of sub-criterion 4 in the points the
  plot check adds is still 2: the decoder skips every such character and returns the
  empty byte string.
\<close>

theorem non_alphabet_payload_decodes:
  assumes "list_all (\<lambda>c. c < 128 \<and> \<not> is_b64_char c) p"
  shows "awarded evaluate_plot self (JArray [a, b, c, JString (py ''base64,'' @ p)]) =
           criterion_points 0 (JArray [a, b, c, JString (py ''base64,'' @ p)])
             + criterion_points 1 (JArray [a, b, c, JString (py ''base64,'' @ p)])
             + criterion_points 2 (JArray [a, b, c, JString (py ''base64,'' @ p)])
             + criterion_points 3 (JArray [a, b, c, JString (py ''base64,'' @ p)]) \<and>
         criterion_points 3 (JArray [a, b, c, JString (py ''base64,'' @ p)]) = 2 \<and>
         b64decode p = Inr []"
proof -
  from assms have ascii: "list_all (\<lambda>c. c < 128) p"
    and skip: "list_all (\<lambda>c. \<not> is_b64_char c) p"
    by (simp_all add: list_all_iff)
  have dec: "b64decode p = Inr []"
    by (simp add: b64decode_def ascii a2b_base64_skips [OF skip])
  have "is_b64_char 98"
    by (simp add: is_b64_char_def b64_value_def)
  with skip have "98 \<notin> set p"
    by (auto simp: list_all_iff)
  then have "find_sep marker p = None"
    by (simp add: marker_chars find_sep_absent)
  then have seg: "segment_after_marker (marker @ p) = Some p"
    by (simp add: segment_after_marker_def find_sep_marker_prefix)
  have "list_all (\<lambda>c. c < 128) (marker @ p)"
    using ascii by (simp add: marker_chars)
  then have "utf8_len (marker @ p) \<noteq> None"
    by (simp add: utf8_len_ascii)
  with seg dec have "criterion_points 3 (JArray [a, b, c, JString (marker @ p)]) = 2"
    by (simp add: decode_criterion decodes_def)
  with dec plot_awarded_sum [of self "JArray [a, b, c, JString (marker @ p)]"] show ?thesis
    by (simp add: marker_def)
qed

theorem non_alphabet_payload_decodes_witness:
  "list_all (\<lambda>c. c < 128 \<and> \<not> is_b64_char c) (py ''!!!'') \<and>
   criterion_points 3 (JArray [JNull, JNull, JNull, JString (py ''base64,!!!'')]) = 2 \<and>
   awarded evaluate_plot (DataAnalystEvaluator [])
     (JArray [JNull, JNull, JNull, JString (py ''base64,!!!'')]) = 6 \<and>
   b64decode (py ''!!!'') = Inr []"
proof -
  have h: "list_all (\<lambda>c. c < 128 \<and> \<not> is_b64_char c) (py ''!!!'')"
    by (simp add: py_def is_b64_char_def b64_value_def)
  have u: "utf8_len (py ''base64,!!!'') = Some 10"
    by (simp add: is_surrogate_def py_def)
  have st: "\<not> startswith (py ''base64,!!!'') (py ''data:image/'')"
    by (simp add: py_def)
  have c: "contains marker (py ''base64,!!!'')"
    by (simp add: contains_def marker_chars py_def)
  from u st c have cp: "criterion_points 0 (JArray [JNull, JNull, JNull, JString (py ''base64,!!!'')]) = 0"
    "criterion_points 1 (JArray [JNull, JNull, JNull, JString (py ''base64,!!!'')]) = 2"
    "criterion_points 2 (JArray [JNull, JNull, JNull, JString (py ''base64,!!!'')]) = 2"
    by (simp_all add: criterion_points_def criteria_met_string)
  have e: "py ''base64,'' @ py ''!!!'' = py ''base64,!!!''"
    by (simp add: py_def)
  from non_alphabet_payload_decodes [OF h, of "DataAnalystEvaluator []" JNull JNull JNull] h cp
  show ?thesis
    unfolding e by simp
qed

subsection \<open>Running the evaluation twice on one evaluator\<close>

lemma quotient_facts:
  "int_truediv 20 20 = Inr (Finite 1)"
  "float_mul (Finite 1) (Finite 100) = Finite 100"
  "int_truediv 40 20 = Inr (Finite 2)"
  "float_mul (Finite 2) (Finite 100) = Finite 200"
  by code_simp+

text \<open>
  C1 does not hold of the code. The accumulator \<open>total_score\<close> is set to 0 by the
  constructor only, so a second evaluation of the same fetched submission on the same
  evaluator adds to the points of the first: on the submission
  \<^verbatim>\<open>[1, "The Titanic Story", 0.485782, "data:image/png;base64,QUJD"]\<close> the first run
  reports 20 of 20 (100 percent) and the second 40 of 20 (200 percent).
\<close>

theorem rerun_on_same_evaluator_doubles_score:
  "run_evaluation \<lparr>parse_float = \<lambda>s. None, repr_of = \<lambda>v. []\<rparr>
      \<lparr>api_url = [], total_score = 0, max_score = 20\<rparr>
      (JArray [JInt 1, JString (py ''The Titanic Story''), JFloat expected,
               JString (py ''data:image/png;base64,QUJD'')]) =
     Inr (\<lparr>success = True, score = 20, report_max_score = 20,
           percentage = JFloat (Finite 100),
           details = py ''Evaluation completed successfully'',
           response = Some (JArray [JInt 1, JString (py ''The Titanic Story''),
               JFloat expected,
               JString (py ''data:image/png;base64,QUJD'')])\<rparr>,
          \<lparr>api_url = [], total_score = 20, max_score = 20\<rparr>) \<and>
   run_evaluation \<lparr>parse_float = \<lambda>s. None, repr_of = \<lambda>v. []\<rparr>
      \<lparr>api_url = [], total_score = 20, max_score = 20\<rparr>
      (JArray [JInt 1, JString (py ''The Titanic Story''), JFloat expected,
               JString (py ''data:image/png;base64,QUJD'')]) =
     Inr (\<lparr>success = True, score = 40, report_max_score = 20,
           percentage = JFloat (Finite 200),
           details = py ''Evaluation completed successfully'',
           response = Some (JArray [JInt 1, JString (py ''The Titanic Story''),
               JFloat expected,
               JString (py ''data:image/png;base64,QUJD'')])\<rparr>,
          \<lparr>api_url = [], total_score = 40, max_score = 20\<rparr>)"
proof -
  let ?B = "\<lparr>parse_float = \<lambda>s. None, repr_of = \<lambda>v. []\<rparr>"
  let ?R = "JArray [JInt 1, JString (py ''The Titanic Story''), JFloat expected,
               JString (py ''data:image/png;base64,QUJD'')]"
  have a: "awarded evaluate_first_answer self ?R = 4" for self
    by (simp add: first_answer_awarded)
  have b: "awarded (evaluate_second_answer ?B) self ?R = 4" for self
    by (simp add: second_answer_awarded printable_def is_surrogate_def py_def ci_eq_def)
  have c: "awarded (evaluate_third_answer ?B) self ?R = 4" for self
    by (simp add: third_answer_awarded third_answer_exact)
  have d: "awarded evaluate_plot self ?R = 8" for self
    by (simp add: plot_awarded plot_good_payload)
  show ?thesis
    by (simp add: run_evaluation_four a b c d quotient_facts)
qed

end
